theory Spec2Isabelle
  imports Main
begin

section \<open>The bounty-card store of src/store/bountyCard.ts\<close>

text \<open>
  The store is a class with five mutable fields, two asynchronous operations that talk to
  a backend over \<^verbatim>\<open>fetch\<close>, and a feature filter that is kept in session storage.
  The embedding passes the store and its surroundings (the signed-in user, the session
  storage, the requests issued so far, the clock) explicitly, and takes the backend as a
  parameter: a function from a request to what that request settles to.
\<close>

subsection \<open>Values\<close>

text \<open>JSON values, as \<^verbatim>\<open>response.json()\<close> and \<^verbatim>\<open>JSON.parse\<close> produce them.\<close>

datatype json =
  JNull
| JBool bool
| JNum int
| JStr string
| JArr "json list"
| JObj "(string \<times> json) list"

text \<open>
  A thrown JavaScript value: an instance of \<^verbatim>\<open>Error\<close> with its name and message, or any
  other value. The catch block of \<^verbatim>\<open>loadWorkspaceBounties\<close> tells the two apart.
\<close>

datatype thrown = Error string string | NonError

text \<open>A call either returns or throws; a promise is either fulfilled or rejected.\<close>

datatype 'a outcome = Returns (returned: 'a) | Throws thrown

text \<open>
  \<^verbatim>\<open>BountyCard\<close> is declared in \<^verbatim>\<open>./interface\<close>, which is not among the sources. The store
  reads \<^verbatim>\<open>id\<close>, \<^verbatim>\<open>status\<close> and \<^verbatim>\<open>features?.uuid\<close> and writes \<^verbatim>\<open>pow\<close>; every other field
  of a card is carried along untouched by the object spread. \<^verbatim>\<open>id\<close> is \<open>bounty_id\<close> here.
\<close>

record Feature =
  uuid :: string

record BountyCard =
  bounty_id :: string
  status :: string
  features :: "Feature option"
  pow :: nat

record MeInfo =
  tribe_jwt :: string

subsection \<open>The store and its surroundings\<close>

record BountyCardStore =
  bountyCards :: "BountyCard list"
  currentWorkspaceId :: string
  loading :: bool
  error :: "string option"
  selectedFeatures :: "string list"

text \<open>
  What a session-storage slot can hold, up to what the store can tell apart: the empty
  string (falsy), a non-empty string that is not JSON, or a JSON text, identified with
  the value it parses to.
\<close>

datatype stored_text = EmptyText | InvalidJson | JsonText json

text \<open>A response: \<^verbatim>\<open>ok\<close>, \<^verbatim>\<open>statusText\<close>, and what \<^verbatim>\<open>json()\<close> settles to.\<close>

datatype 'b response = Response (ok: bool) (statusText: string) (body_json: "'b outcome")

text \<open>
  The backend and the configuration. A request is answered by its position in the
  sequence of requests, its URL and its \<^verbatim>\<open>x-jwt\<close> header; the answer is what the promise
  of \<^verbatim>\<open>fetch\<close> settles to. The body of the list endpoint is read through the cast
  \<^verbatim>\<open>as BountyCard[] | null\<close>, the body of a proofs endpoint is any JSON value.
\<close>

record env =
  TribesURL :: string
  cards_reply :: "nat \<Rightarrow> string \<Rightarrow> string \<Rightarrow> BountyCard list option response outcome"
  proofs_reply :: "nat \<Rightarrow> string \<Rightarrow> string \<Rightarrow> json response outcome"

record world =
  meInfo :: "MeInfo option"
  sessionStorage :: "string \<Rightarrow> stored_text option"
  requests :: "(string \<times> string) list"
  now :: int

type_synonym state = "world \<times> BountyCardStore"

subsection \<open>loadWorkspaceBounties\<close>

text \<open>\<^verbatim>\<open>uiStore.meInfo?.tribe_jwt\<close>, and the falsiness test \<^verbatim>\<open>!jwt\<close>.\<close>

definition jwt_of :: "world \<Rightarrow> string option" where
  "jwt_of w = map_option tribe_jwt (meInfo w)"

definition truthy :: "string option \<Rightarrow> bool" where
  "truthy x = (case x of None \<Rightarrow> False | Some s \<Rightarrow> s \<noteq> [])"

definition bounty_cards_url :: "env \<Rightarrow> string \<Rightarrow> string" where
  "bounty_cards_url e workspaceId =
     TribesURL e @ ''/gobounties/bounty-cards?workspace_uuid='' @ workspaceId"

definition proofsUrl :: "env \<Rightarrow> BountyCard \<Rightarrow> string" where
  "proofsUrl e bounty = TribesURL e @ ''/gobounties/'' @ bounty_id bounty @ ''/proofs''"

definition fetch :: "string \<Rightarrow> string \<Rightarrow> world \<Rightarrow> world" where
  "fetch url jwt w = w\<lparr>requests := requests w @ [(url, jwt)]\<rparr>"

text \<open>\<^verbatim>\<open>Array.isArray(proofs) ? proofs.length : 0\<close>\<close>

definition proofs_length :: "json \<Rightarrow> nat" where
  "proofs_length proofs = (case proofs of JArr ps \<Rightarrow> length ps | _ \<Rightarrow> 0)"

text \<open>
  The proof count a settled proofs request yields: the inner try block of lines 62-84.
  A rejected fetch and a rejected \<^verbatim>\<open>json()\<close> reach the inner catch, a response that is
  not ok returns early; all three give 0.
\<close>

definition pow_of_reply :: "json response outcome \<Rightarrow> nat" where
  "pow_of_reply r =
     (case r of
        Throws x \<Rightarrow> 0
      | Returns proofsResponse \<Rightarrow>
          if \<not> ok proofsResponse then 0
          else (case body_json proofsResponse of
                  Throws x \<Rightarrow> 0
                | Returns proofs \<Rightarrow> proofs_length proofs))"

text \<open>
  The callback of \<^verbatim>\<open>map\<close> for one card: it issues the card's proofs request and returns
  the card with \<^verbatim>\<open>pow\<close> set.
\<close>

definition with_proofs :: "env \<Rightarrow> string \<Rightarrow> BountyCard \<Rightarrow> world \<Rightarrow> world \<times> BountyCard" where
  "with_proofs e jwt bounty w =
     (let url = proofsUrl e bounty;
          r = proofs_reply e (length (requests w)) url jwt
      in (fetch url jwt w, bounty\<lparr>pow := pow_of_reply r\<rparr>))"

text \<open>
  \<^verbatim>\<open>Promise.all(cards.map(...))\<close>: the callbacks start in list order, each issuing its
  request, and the results keep the order of the cards.
\<close>

fun bountyCardsWithProofs ::
  "env \<Rightarrow> string \<Rightarrow> BountyCard list \<Rightarrow> world \<Rightarrow> world \<times> BountyCard list" where
  "bountyCardsWithProofs e jwt [] w = (w, [])"
| "bountyCardsWithProofs e jwt (bounty # rest) w =
     (case with_proofs e jwt bounty w of
        (w1, b) \<Rightarrow>
          (case bountyCardsWithProofs e jwt rest w1 of
             (w2, bs) \<Rightarrow> (w2, b # bs)))"

text \<open>
  A load that has passed the precondition check and issued the list request is pending:
  it holds the token it read and the request it waits for.
\<close>

datatype pending = Pending (p_jwt: string) (p_seq: nat) (p_url: string)

text \<open>
  The try block from the settled list request on (lines 53-86): the world after it, and
  either the thrown value or the list to commit.
\<close>

definition load_try :: "env \<Rightarrow> pending \<Rightarrow> world \<Rightarrow> world \<times> BountyCard list outcome" where
  "load_try e p w =
     (case cards_reply e (p_seq p) (p_url p) (p_jwt p) of
        Throws x \<Rightarrow> (w, Throws x)
      | Returns response \<Rightarrow>
          if \<not> ok response
          then (w, Throws (Error ''Error'' (''Failed to load bounties: '' @ statusText response)))
          else (case body_json response of
                  Throws x \<Rightarrow> (w, Throws x)
                | Returns data \<Rightarrow>
                    (case bountyCardsWithProofs e (p_jwt p)
                            (case data of None \<Rightarrow> [] | Some cards \<Rightarrow> cards) w of
                       (w1, cards1) \<Rightarrow> (w1, Returns cards1))))"

text \<open>\<^verbatim>\<open>error instanceof Error ? error.message : 'An unknown error occurred'\<close>\<close>

definition catch_message :: "thrown \<Rightarrow> string" where
  "catch_message x =
     (case x of Error n m \<Rightarrow> m | NonError \<Rightarrow> ''An unknown error occurred'')"

text \<open>
  The synchronous start of a load (lines 28-51): the precondition check, which returns
  early, or the first action and the list request.
\<close>

definition load_begin :: "env \<Rightarrow> state \<Rightarrow> state \<times> pending option" where
  "load_begin e ws =
     (case ws of (w, s) \<Rightarrow>
        let jwt = jwt_of w in
        if currentWorkspaceId s = [] \<or> \<not> truthy jwt
        then ((w, s\<lparr>error := Some ''Missing workspace ID or authentication''\<rparr>), None)
        else
          let s1 = s\<lparr>loading := True, error := None\<rparr>;
              url = bounty_cards_url e (currentWorkspaceId s)
          in ((fetch url (the jwt) w, s1),
              Some (Pending (the jwt) (length (requests w)) url)))"

text \<open>
  The rest of a pending load, from the settled list request to the finally block: the
  commit of the enriched list, or the catch block, and then \<^verbatim>\<open>loading = false\<close>.
  Between \<open>load_begin\<close> and this step the load touches no field of the store, so
  the step is taken as one; what other calls do while the load is pending happens
  between the two. The two \<^verbatim>\<open>console.error\<close> calls change nothing and are left out.
\<close>

definition load_complete :: "env \<Rightarrow> pending \<Rightarrow> state \<Rightarrow> state" where
  "load_complete e p ws =
     (case ws of (w, s) \<Rightarrow>
        (case load_try e p w of
           (w1, Returns cards) \<Rightarrow> (w1, s\<lparr>bountyCards := cards, loading := False\<rparr>)
         | (w1, Throws x) \<Rightarrow> (w1, s\<lparr>error := Some (catch_message x), loading := False\<rparr>)))"

text \<open>A load that nothing else interleaves with. Its promise is always fulfilled.\<close>

definition loadWorkspaceBounties :: "env \<Rightarrow> state \<Rightarrow> state outcome" where
  "loadWorkspaceBounties e ws =
     (case load_begin e ws of
        (ws1, None) \<Rightarrow> Returns ws1
      | (ws1, Some p) \<Rightarrow> Returns (load_complete e p ws1))"

subsection \<open>switchWorkspace\<close>

text \<open>The action of lines 108-111.\<close>

definition switch_action :: "string \<Rightarrow> state \<Rightarrow> state" where
  "switch_action newWorkspaceId ws =
     (case ws of (w, s) \<Rightarrow> (w, s\<lparr>currentWorkspaceId := newWorkspaceId, bountyCards := []\<rparr>))"

text \<open>The synchronous part of \<^verbatim>\<open>switchWorkspace\<close>: up to the first await of the reload.\<close>

definition switch_begin :: "env \<Rightarrow> string \<Rightarrow> state \<Rightarrow> state \<times> pending option" where
  "switch_begin e newWorkspaceId ws =
     (if currentWorkspaceId (snd ws) = newWorkspaceId then (ws, None)
      else load_begin e (switch_action newWorkspaceId ws))"

definition switchWorkspace :: "env \<Rightarrow> string \<Rightarrow> state \<Rightarrow> state outcome" where
  "switchWorkspace e newWorkspaceId ws =
     (if currentWorkspaceId (snd ws) = newWorkspaceId then Returns ws
      else loadWorkspaceBounties e (switch_action newWorkspaceId ws))"

subsection \<open>The feature filter\<close>

text \<open>
  \<^verbatim>\<open>JSON.stringify\<close> and \<^verbatim>\<open>JSON.parse\<close> on stored texts. Parsing the text that
  \<^verbatim>\<open>JSON.stringify\<close> wrote gives the value back; the message of the syntax error is the
  engine's own.
\<close>

definition JSON_stringify :: "json \<Rightarrow> stored_text" where
  "JSON_stringify v = JsonText v"

definition JSON_parse :: "stored_text \<Rightarrow> json outcome" where
  "JSON_parse t =
     (case t of
        JsonText v \<Rightarrow> Returns v
      | _ \<Rightarrow> Throws (Error ''SyntaxError'' ''Unexpected token''))"

definition filter_state_json :: "string list \<Rightarrow> int \<Rightarrow> json" where
  "filter_state_json sel t =
     JObj [(''selectedFeatures'', JArr (map JStr sel)), (''timestamp'', JNum t)]"

text \<open>
  \<^verbatim>\<open>sessionStorage.setItem\<close> is taken to succeed: the storage has room for the record.
\<close>

definition saveFilterState :: "state \<Rightarrow> state" where
  "saveFilterState ws =
     (case ws of (w, s) \<Rightarrow>
        (w\<lparr>sessionStorage := (sessionStorage w)
              (''bountyFilterState'' \<mapsto>
                 JSON_stringify (filter_state_json (selectedFeatures s) (now w)))\<rparr>, s))"

text \<open>
  \<^verbatim>\<open>state.selectedFeatures\<close> on a parsed value: reading a property of \<^verbatim>\<open>null\<close> throws a
  TypeError, an object gives the property or \<^verbatim>\<open>undefined\<close>, every other JSON value has
  no such property.
\<close>

definition get_selectedFeatures :: "json \<Rightarrow> json option outcome" where
  "get_selectedFeatures v =
     (case v of
        JNull \<Rightarrow> Throws (Error ''TypeError'' ''Cannot read properties of null'')
      | JObj kvs \<Rightarrow> Returns (map_of kvs ''selectedFeatures'')
      | _ \<Rightarrow> Returns None)"

fun as_strings :: "json list \<Rightarrow> string list option" where
  "as_strings [] = Some []"
| "as_strings (JStr x # vs) = map_option ((#) x) (as_strings vs)"
| "as_strings (v # vs) = None"

text \<open>
  The field \<^verbatim>\<open>selectedFeatures\<close> is declared \<^verbatim>\<open>string[]\<close>, and the cast \<^verbatim>\<open>as FilterState\<close>
  is unchecked. A parsed value whose \<^verbatim>\<open>selectedFeatures\<close> is not an array of strings
  would be assigned as it is and take the store out of its declared type; the typed store
  of this theory cannot hold it, and \<open>restoreFilterState\<close> gives \<open>IllTyped\<close> there.
  A call that can end this way completes, raises, or is ill-typed.
\<close>

datatype 'a completion = Completes 'a | Raises thrown | IllTyped

definition restoreFilterState :: "state \<Rightarrow> state completion" where
  "restoreFilterState ws =
     (case ws of (w, s) \<Rightarrow>
        (case sessionStorage w ''bountyFilterState'' of
           None \<Rightarrow> Completes (w, s)
         | Some EmptyText \<Rightarrow> Completes (w, s)
         | Some saved \<Rightarrow>
             (case JSON_parse saved of
                Throws x \<Rightarrow> Raises x
              | Returns st \<Rightarrow>
                  (case get_selectedFeatures st of
                     Throws x \<Rightarrow> Raises x
                   | Returns (Some (JArr vs)) \<Rightarrow>
                       (case as_strings vs of
                          Some sel \<Rightarrow> Completes (w, s\<lparr>selectedFeatures := sel\<rparr>)
                        | None \<Rightarrow> IllTyped)
                   | Returns _ \<Rightarrow> IllTyped))))"

definition toggleFeature :: "string \<Rightarrow> state \<Rightarrow> state" where
  "toggleFeature featureId ws =
     (case ws of (w, s) \<Rightarrow>
        saveFilterState
          (w, if featureId \<in> set (selectedFeatures s)
              then s\<lparr>selectedFeatures := filter (\<lambda>i. i \<noteq> featureId) (selectedFeatures s)\<rparr>
              else s\<lparr>selectedFeatures := selectedFeatures s @ [featureId]\<rparr>))"

definition removeItem :: "string \<Rightarrow> world \<Rightarrow> world" where
  "removeItem k w = w\<lparr>sessionStorage := (sessionStorage w)(k := None)\<rparr>"

definition clearAllFilters :: "state \<Rightarrow> state" where
  "clearAllFilters ws =
     (case ws of (w, s) \<Rightarrow>
        saveFilterState (removeItem ''bountyFilterState'' w, s\<lparr>selectedFeatures := []\<rparr>))"

text \<open>\<^verbatim>\<open>card.features?.uuid\<close>\<close>

definition features_uuid :: "BountyCard \<Rightarrow> string option" where
  "features_uuid bountyCard = map_option uuid (features bountyCard)"

definition filteredBountyCards :: "BountyCardStore \<Rightarrow> BountyCard list" where
  "filteredBountyCards s =
     (if length (selectedFeatures s) = 0 then bountyCards s
      else filter (\<lambda>bountyCard.
             let hasNoFeature = \<not> truthy (features_uuid bountyCard);
                 isNoFeatureSelected = (''no-feature'' \<in> set (selectedFeatures s));
                 hasSelectedFeature =
                   (truthy (features_uuid bountyCard)
                    \<and> the (features_uuid bountyCard) \<in> set (selectedFeatures s))
             in if hasNoFeature \<and> isNoFeatureSelected then True
                else if hasSelectedFeature then True
                else False) (bountyCards s))"

definition hasCardsWithoutFeatures :: "BountyCardStore \<Rightarrow> bool" where
  "hasCardsWithoutFeatures s =
     list_ex (\<lambda>bountyCard. \<not> truthy (features_uuid bountyCard)) (bountyCards s)"






subsection \<open>The constructor\<close>

definition new_store :: "string \<Rightarrow> BountyCardStore" where
  "new_store workspaceId =
     \<lparr>bountyCards = [], currentWorkspaceId = workspaceId, loading = False,
      error = None, selectedFeatures = []\<rparr>"


subsection \<open>The public members\<close>




subsection \<open>The words of the specification\<close>

text \<open>
  The feature identifier of a card, as the specification speaks of it: a card has one
  when it carries a features reference whose \<^verbatim>\<open>uuid\<close> is not the empty string. This is
  the reading of \<^verbatim>\<open>hasCardsWithoutFeatures\<close>, which counts a card with an empty \<^verbatim>\<open>uuid\<close>
  among the cards that lack a feature identifier.
\<close>

definition feature_identifier :: "BountyCard \<Rightarrow> string option" where
  "feature_identifier c =
     (case features c of
        None \<Rightarrow> None
      | Some f \<Rightarrow> if uuid f = [] then None else Some (uuid f))"

text \<open>
  A proof fetch fails when the request is rejected, when the response has a non-success
  status, or when reading its body throws.
\<close>

definition proof_fetch_fails :: "json response outcome \<Rightarrow> bool" where
  "proof_fetch_fails r =
     (case r of
        Throws x \<Rightarrow> True
      | Returns proofsResponse \<Rightarrow>
          \<not> ok proofsResponse
          \<or> (case body_json proofsResponse of Throws x \<Rightarrow> True | Returns v \<Rightarrow> False))"

subsection \<open>A backend and a session to run the store on\<close>

definition card_a :: BountyCard where
  "card_a = \<lparr>bounty_id = ''a'', status = ''TODO'', features = Some \<lparr>uuid = ''f1''\<rparr>, pow = 0\<rparr>"

definition card_b :: BountyCard where
  "card_b = \<lparr>bounty_id = ''b'', status = ''PAID'', features = None, pow = 0\<rparr>"

definition card_c :: BountyCard where
  "card_c = \<lparr>bounty_id = ''c'', status = ''TODO'', features = Some \<lparr>uuid = []\<rparr>, pow = 7\<rparr>"

text \<open>
  Workspace \<open>w1\<close> has the cards \<open>a\<close> (two proofs) and \<open>b\<close> (its proofs request is
  rejected), workspace \<open>w2\<close> has the card \<open>c\<close> (one proof), the list of workspace
  \<open>w3\<close> is \<^verbatim>\<open>null\<close>, and every other list request is answered 404.
\<close>

definition demo_env :: env where
  "demo_env =
     \<lparr>TribesURL = ''t'',
      cards_reply = (\<lambda>n url jwt.
        if url = ''t/gobounties/bounty-cards?workspace_uuid=w1''
        then Returns (Response True ''OK'' (Returns (Some [card_a, card_b])))
        else if url = ''t/gobounties/bounty-cards?workspace_uuid=w2''
        then Returns (Response True ''OK'' (Returns (Some [card_c])))
        else if url = ''t/gobounties/bounty-cards?workspace_uuid=w3''
        then Returns (Response True ''OK'' (Returns None))
        else Returns (Response False ''Not Found'' (Throws NonError))),
      proofs_reply = (\<lambda>n url jwt.
        if url = ''t/gobounties/a/proofs''
        then Returns (Response True ''OK'' (Returns (JArr [JObj [], JObj []])))
        else if url = ''t/gobounties/c/proofs''
        then Returns (Response True ''OK'' (Returns (JArr [JObj []])))
        else Throws (Error ''TypeError'' ''Failed to fetch''))\<rparr>"

definition demo_world :: world where
  "demo_world =
     \<lparr>meInfo = Some \<lparr>tribe_jwt = ''j''\<rparr>, sessionStorage = (\<lambda>k. None),
      requests = [], now = 1000\<rparr>"

text \<open>
  A store for \<open>w1\<close> whose first load is still pending when the user logs out
  (\<^verbatim>\<open>ui.setMeInfo(null)\<close> in src/people/userInfo/hooks.ts).
\<close>

definition loading_logged_out :: state where
  "loading_logged_out =
     (case fst (load_begin demo_env (demo_world, new_store ''w1'')) of
        (w, s) \<Rightarrow> (w\<lparr>meInfo := None\<rparr>, s))"

text \<open>
  A store for \<open>w1\<close> that has loaded its cards and has a second load pending when the
  user logs out.
\<close>

definition reloading_logged_out :: state where
  "reloading_logged_out =
     (case fst (load_begin demo_env
                  (returned (loadWorkspaceBounties demo_env (demo_world, new_store ''w1'')))) of
        (w, s) \<Rightarrow> (w\<lparr>meInfo := None\<rparr>, s))"



text \<open>
  Two overlapping loads: the store is made for \<open>w1\<close> and its load is pending; the user
  switches to \<open>w2\<close>, whose load is pending too; the load of \<open>w2\<close> completes, and then
  the load of \<open>w1\<close> does.
\<close>

definition race_started :: "state \<times> pending option" where
  "race_started = load_begin demo_env (demo_world, new_store ''w1'')"

definition race_switched :: "state \<times> pending option" where
  "race_switched = switch_begin demo_env ''w2'' (fst race_started)"

definition race_new_landed :: state where
  "race_new_landed = load_complete demo_env (the (snd race_switched)) (fst race_switched)"

definition race_old_landed :: state where
  "race_old_landed = load_complete demo_env (the (snd race_started)) race_new_landed"

section \<open>Properties\<close>

subsection \<open>The proof requests of a load\<close>

lemma bountyCardsWithProofs_world:
  "fst (bountyCardsWithProofs e jwt cards w) =
     w\<lparr>requests := requests w @ map (\<lambda>b. (proofsUrl e b, jwt)) cards\<rparr>"
  by (induction cards arbitrary: w)
     (simp_all add: with_proofs_def fetch_def Let_def case_prod_unfold)

lemma bountyCardsWithProofs_cards:
  "snd (bountyCardsWithProofs e jwt cards w) =
     map (\<lambda>(i, b). b\<lparr>pow := pow_of_reply (proofs_reply e i (proofsUrl e b) jwt)\<rparr>)
       (enumerate (length (requests w)) cards)"
  by (induction cards arbitrary: w)
     (simp_all add: with_proofs_def fetch_def Let_def case_prod_unfold)

lemma bountyCardsWithProofs_length:
  "length (snd (bountyCardsWithProofs e jwt cards w)) = length cards"
  by (simp add: bountyCardsWithProofs_cards)

lemma bountyCardsWithProofs_nth:
  "i < length cards \<Longrightarrow>
   snd (bountyCardsWithProofs e jwt cards w) ! i =
     (cards ! i)\<lparr>pow := pow_of_reply
        (proofs_reply e (length (requests w) + i) (proofsUrl e (cards ! i)) jwt)\<rparr>"
  by (simp add: bountyCardsWithProofs_cards nth_enumerate_eq)

lemma pow_of_reply_fails: "proof_fetch_fails r \<Longrightarrow> pow_of_reply r = 0"
  by (auto simp: proof_fetch_fails_def pow_of_reply_def split: outcome.splits)

lemma pow_of_reply_array:
  "pow_of_reply (Returns (Response True st (Returns (JArr ps)))) = length ps"
  by (simp add: pow_of_reply_def proofs_length_def)

subsection \<open>The paths of a load\<close>

lemma load_rejected:
  "currentWorkspaceId s = [] \<or> \<not> truthy (jwt_of w) \<Longrightarrow>
   loadWorkspaceBounties e (w, s) =
     Returns (w, s\<lparr>error := Some ''Missing workspace ID or authentication''\<rparr>)"
  by (simp add: loadWorkspaceBounties_def load_begin_def)

lemma load_passed:
  assumes "currentWorkspaceId s \<noteq> []" and "jwt_of w = Some jwt" and "jwt \<noteq> []"
  shows "loadWorkspaceBounties e (w, s) =
     Returns (load_complete e
       (Pending jwt (length (requests w)) (bounty_cards_url e (currentWorkspaceId s)))
       (fetch (bounty_cards_url e (currentWorkspaceId s)) jwt w,
        s\<lparr>loading := True, error := None\<rparr>))"
  using assms by (simp add: loadWorkspaceBounties_def load_begin_def truthy_def Let_def)

lemma load_complete_loading: "loading (snd (load_complete e p ws)) = False"
  by (simp add: load_complete_def split: prod.splits outcome.splits)

lemma load_complete_workspace:
  "currentWorkspaceId (snd (load_complete e p ws)) = currentWorkspaceId (snd ws)"
  by (simp add: load_complete_def split: prod.splits outcome.splits)

lemma load_try_listed:
  assumes "cards_reply e (p_seq p) (p_url p) (p_jwt p) = Returns (Response True st (Returns data))"
  shows "load_try e p w =
     (fst (bountyCardsWithProofs e (p_jwt p) (case data of None \<Rightarrow> [] | Some cards \<Rightarrow> cards) w),
      Returns (snd (bountyCardsWithProofs e (p_jwt p)
                      (case data of None \<Rightarrow> [] | Some cards \<Rightarrow> cards) w)))"
  using assms by (simp add: load_try_def case_prod_unfold)

lemma load_listed:
  assumes "currentWorkspaceId s \<noteq> []" and "jwt_of w = Some jwt" and "jwt \<noteq> []"
    and "cards_reply e (length (requests w)) (bounty_cards_url e (currentWorkspaceId s)) jwt =
           Returns (Response True st (Returns data))"
  shows "loadWorkspaceBounties e (w, s) =
     Returns
       (fst (bountyCardsWithProofs e jwt (case data of None \<Rightarrow> [] | Some cards \<Rightarrow> cards)
               (fetch (bounty_cards_url e (currentWorkspaceId s)) jwt w)),
        s\<lparr>bountyCards :=
             snd (bountyCardsWithProofs e jwt (case data of None \<Rightarrow> [] | Some cards \<Rightarrow> cards)
                    (fetch (bounty_cards_url e (currentWorkspaceId s)) jwt w)),
           loading := False, error := None\<rparr>)"
proof -
  let ?p = "Pending jwt (length (requests w)) (bounty_cards_url e (currentWorkspaceId s))"
  have "cards_reply e (p_seq ?p) (p_url ?p) (p_jwt ?p) = Returns (Response True st (Returns data))"
    using assms(4) by simp
  from load_try_listed [OF this] show ?thesis
    by (simp add: load_passed [OF assms(1-3)] load_complete_def)
qed

subsection \<open>Claims about loadWorkspaceBounties\<close>

text \<open>
  Claim C1. When the precondition check passes, the list request is answered with a
  success status and an array of N cards, and every card's proofs request is answered
  with a success status and an array, \<open>loadWorkspaceBounties\<close> returns with
  \<open>bountyCards\<close> replaced by a list of length N, in the order of the response, in which
  each card is the card of the response with \<open>pow\<close> set to the length of its proof
  array. The proofs requests are the N requests that follow the list request.
\<close>

theorem C1_load_commits_proof_counts:
  assumes "currentWorkspaceId s \<noteq> []" and "jwt_of w = Some jwt" and "jwt \<noteq> []"
    and "cards_reply e (length (requests w)) (bounty_cards_url e (currentWorkspaceId s)) jwt =
           Returns (Response True st (Returns (Some cards)))"
    and "\<forall>i<length cards.
           proofs_reply e (Suc (length (requests w)) + i) (proofsUrl e (cards ! i)) jwt =
             Returns (Response True (sts i) (Returns (JArr (proofs i))))"
  shows "\<exists>w' s'. loadWorkspaceBounties e (w, s) = Returns (w', s')
           \<and> length (bountyCards s') = length cards
           \<and> (\<forall>i<length cards. bountyCards s' ! i = (cards ! i)\<lparr>pow := length (proofs i)\<rparr>)
           \<and> error s' = None \<and> loading s' = False"
proof -
  let ?w1 = "fetch (bounty_cards_url e (currentWorkspaceId s)) jwt w"
  have n: "length (requests ?w1) = Suc (length (requests w))"
    by (simp add: fetch_def)
  have "snd (bountyCardsWithProofs e jwt cards ?w1) ! i = (cards ! i)\<lparr>pow := length (proofs i)\<rparr>"
    if "i < length cards" for i
    using that assms(5)
    by (simp add: bountyCardsWithProofs_nth n pow_of_reply_array)
  then show ?thesis
    by (simp add: load_listed [OF assms(1-4)] bountyCardsWithProofs_length)
qed

theorem C1_witness:
  "currentWorkspaceId (new_store ''w2'') \<noteq> [] \<and> jwt_of demo_world = Some ''j''
   \<and> bountyCards (snd (returned (loadWorkspaceBounties demo_env (demo_world, new_store ''w2'')))) =
       [card_c\<lparr>pow := 1\<rparr>]
   \<and> error (snd (returned (loadWorkspaceBounties demo_env (demo_world, new_store ''w2'')))) = None
   \<and> loading (snd (returned (loadWorkspaceBounties demo_env (demo_world, new_store ''w2'')))) = False"
proof -
  have h1: "currentWorkspaceId (new_store ''w2'') \<noteq> []"
    by (simp add: new_store_def)
  have h2: "jwt_of demo_world = Some ''j''"
    by (simp add: jwt_of_def demo_world_def)
  have h3: "''j'' \<noteq> []"
    by simp
  have h4: "cards_reply demo_env (length (requests demo_world))
              (bounty_cards_url demo_env (currentWorkspaceId (new_store ''w2''))) ''j'' =
            Returns (Response True ''OK'' (Returns (Some [card_c])))"
    by (simp add: demo_env_def bounty_cards_url_def new_store_def)
  have h5: "\<forall>i<length [card_c].
              proofs_reply demo_env (Suc (length (requests demo_world)) + i)
                (proofsUrl demo_env ([card_c] ! i)) ''j'' =
              Returns (Response True ((\<lambda>i. ''OK'') i) (Returns (JArr ((\<lambda>i. [JObj []]) i))))"
    by (simp add: demo_env_def proofsUrl_def card_c_def)
  from C1_load_commits_proof_counts [OF h1 h2 h3 h4 h5]
  obtain w' s' where
    l: "loadWorkspaceBounties demo_env (demo_world, new_store ''w2'') = Returns (w', s')"
    and n: "length (bountyCards s') = length [card_c]"
    and c: "\<forall>i<length [card_c]. bountyCards s' ! i = ([card_c] ! i)\<lparr>pow := length [JObj []]\<rparr>"
    and e: "error s' = None" "loading s' = False"
    by blast
  from c have "bountyCards s' ! 0 = card_c\<lparr>pow := 1\<rparr>"
    by simp
  with n have "bountyCards s' = [card_c\<lparr>pow := 1\<rparr>]"
    by (cases "bountyCards s'") simp_all
  with l e h1 h2 show ?thesis
    by simp
qed

text \<open>
  Claim C3. When the precondition check passes and the list request is answered with a
  success status and an array of cards, \<open>loadWorkspaceBounties\<close> commits a card for every
  card of the response, whatever the proofs requests settle to: a card whose proof fetch
  fails (a rejected request, a non-success status, a body that cannot be read) gets
  \<open>pow = 0\<close>, a card whose proof fetch gives an array gets the length of the array, and
  \<open>error\<close> is \<open>None\<close> after the load.
\<close>

theorem C3_failed_proof_fetch_gives_zero:
  assumes "currentWorkspaceId s \<noteq> []" and "jwt_of w = Some jwt" and "jwt \<noteq> []"
    and "cards_reply e (length (requests w)) (bounty_cards_url e (currentWorkspaceId s)) jwt =
           Returns (Response True st (Returns (Some cards)))"
  shows "\<exists>w' s'. loadWorkspaceBounties e (w, s) = Returns (w', s')
           \<and> length (bountyCards s') = length cards
           \<and> error s' = None \<and> loading s' = False
           \<and> (\<forall>i<length cards.
                 (proof_fetch_fails
                    (proofs_reply e (Suc (length (requests w)) + i) (proofsUrl e (cards ! i)) jwt)
                  \<longrightarrow> bountyCards s' ! i = (cards ! i)\<lparr>pow := 0\<rparr>)
               \<and> (\<forall>sti ps.
                    proofs_reply e (Suc (length (requests w)) + i) (proofsUrl e (cards ! i)) jwt =
                      Returns (Response True sti (Returns (JArr ps)))
                    \<longrightarrow> bountyCards s' ! i = (cards ! i)\<lparr>pow := length ps\<rparr>))"
proof -
  let ?w1 = "fetch (bounty_cards_url e (currentWorkspaceId s)) jwt w"
  let ?r = "\<lambda>i. proofs_reply e (Suc (length (requests w)) + i) (proofsUrl e (cards ! i)) jwt"
  have n: "length (requests ?w1) = Suc (length (requests w))"
    by (simp add: fetch_def)
  have nth: "snd (bountyCardsWithProofs e jwt cards ?w1) ! i = (cards ! i)\<lparr>pow := pow_of_reply (?r i)\<rparr>"
    if "i < length cards" for i
    using that by (simp add: bountyCardsWithProofs_nth n)
  have "(proof_fetch_fails (?r i)
           \<longrightarrow> snd (bountyCardsWithProofs e jwt cards ?w1) ! i = (cards ! i)\<lparr>pow := 0\<rparr>)
        \<and> (\<forall>sti ps. ?r i = Returns (Response True sti (Returns (JArr ps)))
              \<longrightarrow> snd (bountyCardsWithProofs e jwt cards ?w1) ! i = (cards ! i)\<lparr>pow := length ps\<rparr>)"
    if "i < length cards" for i
    using nth [OF that] by (auto simp: pow_of_reply_fails pow_of_reply_array)
  then show ?thesis
    by (simp add: load_listed [OF assms(1-4)] bountyCardsWithProofs_length)
qed

theorem C3_witness:
  "proof_fetch_fails (proofs_reply demo_env 2 (proofsUrl demo_env card_b) ''j'')
   \<and> bountyCards (snd (returned (loadWorkspaceBounties demo_env (demo_world, new_store ''w1'')))) =
       [card_a\<lparr>pow := 2\<rparr>, card_b\<lparr>pow := 0\<rparr>]
   \<and> error (snd (returned (loadWorkspaceBounties demo_env (demo_world, new_store ''w1'')))) = None
   \<and> loading (snd (returned (loadWorkspaceBounties demo_env (demo_world, new_store ''w1'')))) = False"
proof -
  have h1: "currentWorkspaceId (new_store ''w1'') \<noteq> []"
    by (simp add: new_store_def)
  have h2: "jwt_of demo_world = Some ''j''"
    by (simp add: jwt_of_def demo_world_def)
  have h3: "''j'' \<noteq> []"
    by simp
  have h4: "cards_reply demo_env (length (requests demo_world))
              (bounty_cards_url demo_env (currentWorkspaceId (new_store ''w1''))) ''j'' =
            Returns (Response True ''OK'' (Returns (Some [card_a, card_b])))"
    by (simp add: demo_env_def bounty_cards_url_def new_store_def)
  have a: "proofs_reply demo_env (Suc 0) (proofsUrl demo_env card_a) ''j'' =
             Returns (Response True ''OK'' (Returns (JArr [JObj [], JObj []])))"
    by (simp add: demo_env_def proofsUrl_def card_a_def)
  have b: "proof_fetch_fails (proofs_reply demo_env 2 (proofsUrl demo_env card_b) ''j'')"
    by (simp add: demo_env_def proofsUrl_def card_b_def proof_fetch_fails_def)
  have r: "requests demo_world = []"
    by (simp add: demo_world_def)
  from C3_failed_proof_fetch_gives_zero [OF h1 h2 h3 h4]
  obtain w' s' where
    l: "loadWorkspaceBounties demo_env (demo_world, new_store ''w1'') = Returns (w', s')"
    and n: "length (bountyCards s') = length [card_a, card_b]"
    and e: "error s' = None" "loading s' = False"
    and c: "\<forall>i<length [card_a, card_b].
        (proof_fetch_fails
           (proofs_reply demo_env (Suc (length (requests demo_world)) + i)
              (proofsUrl demo_env ([card_a, card_b] ! i)) ''j'')
         \<longrightarrow> bountyCards s' ! i = ([card_a, card_b] ! i)\<lparr>pow := 0\<rparr>)
        \<and> (\<forall>sti ps.
             proofs_reply demo_env (Suc (length (requests demo_world)) + i)
               (proofsUrl demo_env ([card_a, card_b] ! i)) ''j'' =
             Returns (Response True sti (Returns (JArr ps)))
             \<longrightarrow> bountyCards s' ! i = ([card_a, card_b] ! i)\<lparr>pow := length ps\<rparr>)"
    by blast
  from c [rule_format, of 0] a r have c0: "bountyCards s' ! 0 = card_a\<lparr>pow := 2\<rparr>"
    by simp
  from c [rule_format, of 1] b r have c1: "bountyCards s' ! 1 = card_b\<lparr>pow := 0\<rparr>"
    by (simp add: numeral_2_eq_2)
  obtain x y where xy: "bountyCards s' = [x, y]"
    using n by (cases "bountyCards s'"; cases "tl (bountyCards s')") auto
  with c0 c1 have "bountyCards s' = [card_a\<lparr>pow := 2\<rparr>, card_b\<lparr>pow := 0\<rparr>]"
    by simp
  with l e b show ?thesis
    by simp
qed

text \<open>
  Claim C4, as the code has it. When the workspace id is empty or the token is absent or
  empty, \<open>loadWorkspaceBounties\<close> returns (it does not throw), issues no request, sets
  \<open>error\<close> to a message that is not empty, and leaves \<open>bountyCards\<close> and \<open>loading\<close> as
  they were: empty and false when they were so before the call.
\<close>

theorem C4_missing_id_or_token:
  assumes "currentWorkspaceId s = [] \<or> jwt_of w = None \<or> jwt_of w = Some []"
  shows "\<exists>w' s'. loadWorkspaceBounties e (w, s) = Returns (w', s')
           \<and> requests w' = requests w
           \<and> (\<exists>m. error s' = Some m \<and> m \<noteq> [])
           \<and> bountyCards s' = bountyCards s \<and> loading s' = loading s"
proof -
  from assms have "currentWorkspaceId s = [] \<or> \<not> truthy (jwt_of w)"
    by (auto simp: truthy_def)
  from load_rejected [OF this] show ?thesis
    by simp
qed

theorem C4_witness:
  "jwt_of (demo_world\<lparr>meInfo := None\<rparr>) = None
   \<and> requests (fst (returned
        (loadWorkspaceBounties demo_env (demo_world\<lparr>meInfo := None\<rparr>, new_store ''w1'')))) = []
   \<and> error (snd (returned
        (loadWorkspaceBounties demo_env (demo_world\<lparr>meInfo := None\<rparr>, new_store ''w1'')))) \<noteq> None
   \<and> error (snd (returned
        (loadWorkspaceBounties demo_env (demo_world\<lparr>meInfo := None\<rparr>, new_store ''w1'')))) \<noteq> Some []
   \<and> bountyCards (snd (returned
        (loadWorkspaceBounties demo_env (demo_world\<lparr>meInfo := None\<rparr>, new_store ''w1'')))) = []
   \<and> loading (snd (returned
        (loadWorkspaceBounties demo_env (demo_world\<lparr>meInfo := None\<rparr>, new_store ''w1'')))) = False"
proof -
  have h: "currentWorkspaceId (new_store ''w1'') = [] \<or> jwt_of (demo_world\<lparr>meInfo := None\<rparr>) = None
           \<or> jwt_of (demo_world\<lparr>meInfo := None\<rparr>) = Some []"
    by (simp add: jwt_of_def)
  from C4_missing_id_or_token [OF h, of demo_env]
  obtain w' s' m where
    "loadWorkspaceBounties demo_env (demo_world\<lparr>meInfo := None\<rparr>, new_store ''w1'') = Returns (w', s')"
    "requests w' = requests (demo_world\<lparr>meInfo := None\<rparr>)"
    "error s' = Some m" "m \<noteq> []"
    "bountyCards s' = bountyCards (new_store ''w1'')" "loading s' = loading (new_store ''w1'')"
    by blast
  then show ?thesis
    by (simp add: jwt_of_def new_store_def demo_world_def)
qed

text \<open>
  Claim C4 as it is written fails on a store that holds cards and has a load pending when
  the token goes away: the call returns at the precondition check, and afterwards
  \<open>bountyCards\<close> is not empty and \<open>loading\<close> is true.
\<close>

theorem C4_counterexample:
  "jwt_of (fst reloading_logged_out) = None
   \<and> bountyCards (snd (returned (loadWorkspaceBounties demo_env reloading_logged_out))) =
       [card_a\<lparr>pow := 2\<rparr>, card_b\<lparr>pow := 0\<rparr>]
   \<and> loading (snd (returned (loadWorkspaceBounties demo_env reloading_logged_out))) = True"
proof -
  have l: "loadWorkspaceBounties demo_env (demo_world, new_store ''w1'') =
      Returns
        (demo_world\<lparr>requests := [(''t/gobounties/bounty-cards?workspace_uuid=w1'', ''j''),
                                  (''t/gobounties/a/proofs'', ''j''),
                                  (''t/gobounties/b/proofs'', ''j'')]\<rparr>,
         (new_store ''w1'')\<lparr>bountyCards := [card_a\<lparr>pow := 2\<rparr>, card_b\<lparr>pow := 0\<rparr>]\<rparr>)"
    by (simp add: loadWorkspaceBounties_def load_begin_def load_complete_def load_try_def
        with_proofs_def pow_of_reply_def proofs_length_def proofsUrl_def bounty_cards_url_def
        fetch_def Let_def jwt_of_def truthy_def new_store_def demo_world_def demo_env_def
        card_a_def card_b_def)
  have r: "reloading_logged_out =
      (demo_world\<lparr>meInfo := None,
                   requests := [(''t/gobounties/bounty-cards?workspace_uuid=w1'', ''j''),
                                (''t/gobounties/a/proofs'', ''j''),
                                (''t/gobounties/b/proofs'', ''j''),
                                (''t/gobounties/bounty-cards?workspace_uuid=w1'', ''j'')]\<rparr>,
       (new_store ''w1'')\<lparr>bountyCards := [card_a\<lparr>pow := 2\<rparr>, card_b\<lparr>pow := 0\<rparr>],
                          loading := True\<rparr>)"
    unfolding reloading_logged_out_def l
    by (simp add: load_begin_def bounty_cards_url_def fetch_def
        Let_def jwt_of_def truthy_def new_store_def demo_world_def demo_env_def)
  show ?thesis
    by (simp add: r loadWorkspaceBounties_def load_begin_def Let_def jwt_of_def truthy_def
        new_store_def)
qed

text \<open>
  Claim C5, as the code has it. \<open>loadWorkspaceBounties\<close> always returns. When the
  precondition check passes, \<open>loading\<close> is false after the load on every path: a rejected
  list request, a non-success status, an unreadable body, and success. When the
  precondition check fails, the early return of lines 30-35 comes before the try block
  and its finally, and \<open>loading\<close> is left as it was.
\<close>

theorem C5_loading_after_load:
  "\<exists>w' s'. loadWorkspaceBounties e (w, s) = Returns (w', s')
     \<and> loading s' =
         (if currentWorkspaceId s = [] \<or> \<not> truthy (jwt_of w) then loading s else False)"
proof (cases "currentWorkspaceId s = [] \<or> \<not> truthy (jwt_of w)")
  case True
  from load_rejected [OF this] True show ?thesis
    by simp
next
  case False
  then obtain jwt where j: "jwt_of w = Some jwt" "jwt \<noteq> []" and c: "currentWorkspaceId s \<noteq> []"
    by (auto simp: truthy_def split: option.splits)
  let ?ws = "load_complete e
       (Pending jwt (length (requests w)) (bounty_cards_url e (currentWorkspaceId s)))
       (fetch (bounty_cards_url e (currentWorkspaceId s)) jwt w, s\<lparr>loading := True, error := None\<rparr>)"
  have "loadWorkspaceBounties e (w, s) = Returns (fst ?ws, snd ?ws)"
    by (simp add: load_passed [OF c j])
  moreover have "loading (snd ?ws) = False"
    by (rule load_complete_loading)
  ultimately have "loadWorkspaceBounties e (w, s) = Returns (fst ?ws, snd ?ws)
      \<and> loading (snd ?ws) =
          (if currentWorkspaceId s = [] \<or> \<not> truthy (jwt_of w) then loading s else False)"
    using False by simp
  then show ?thesis
    by blast
qed

theorem C5_witness:
  "loading (snd (returned
     (loadWorkspaceBounties demo_env (demo_world, (new_store ''w4'')\<lparr>loading := True\<rparr>)))) = False"
proof -
  from C5_loading_after_load [of demo_env demo_world "(new_store ''w4'')\<lparr>loading := True\<rparr>"]
  obtain w' s' where
    "loadWorkspaceBounties demo_env (demo_world, (new_store ''w4'')\<lparr>loading := True\<rparr>) =
       Returns (w', s')"
    "loading s' =
       (if currentWorkspaceId ((new_store ''w4'')\<lparr>loading := True\<rparr>) = []
           \<or> \<not> truthy (jwt_of demo_world)
        then loading ((new_store ''w4'')\<lparr>loading := True\<rparr>) else False)"
    by blast
  then show ?thesis
    by (simp add: new_store_def truthy_def jwt_of_def demo_world_def)
qed

text \<open>
  Claim C5 as it is written fails on a store whose load is pending when the token goes
  away: the next call returns at the precondition check and \<open>loading\<close> is still true.
\<close>

theorem C5_counterexample:
  "loading (snd loading_logged_out)
   \<and> loadWorkspaceBounties demo_env loading_logged_out =
       Returns (fst loading_logged_out,
                (snd loading_logged_out)\<lparr>error := Some ''Missing workspace ID or authentication''\<rparr>)
   \<and> loading (snd (returned (loadWorkspaceBounties demo_env loading_logged_out)))"
  by (simp add: loading_logged_out_def loadWorkspaceBounties_def load_begin_def Let_def
      truthy_def jwt_of_def demo_world_def new_store_def fetch_def)

text \<open>
  Claim C10. When the precondition check passes and the list request is answered with a
  success status and the body \<^verbatim>\<open>null\<close>, \<open>loadWorkspaceBounties\<close> commits the empty list,
  the list request is the only request it issues, and \<open>error\<close> is \<open>None\<close>.
\<close>

theorem C10_null_list:
  assumes "currentWorkspaceId s \<noteq> []" and "jwt_of w = Some jwt" and "jwt \<noteq> []"
    and "cards_reply e (length (requests w)) (bounty_cards_url e (currentWorkspaceId s)) jwt =
           Returns (Response True st (Returns None))"
  shows "\<exists>w' s'. loadWorkspaceBounties e (w, s) = Returns (w', s')
           \<and> bountyCards s' = []
           \<and> requests w' = requests w @ [(bounty_cards_url e (currentWorkspaceId s), jwt)]
           \<and> error s' = None \<and> loading s' = False"
  by (simp add: load_listed [OF assms] fetch_def)

theorem C10_witness:
  "bountyCards (snd (returned (loadWorkspaceBounties demo_env (demo_world, new_store ''w3'')))) = []
   \<and> requests (fst (returned (loadWorkspaceBounties demo_env (demo_world, new_store ''w3'')))) =
       [(''t/gobounties/bounty-cards?workspace_uuid=w3'', ''j'')]
   \<and> error (snd (returned (loadWorkspaceBounties demo_env (demo_world, new_store ''w3'')))) = None
   \<and> loading (snd (returned (loadWorkspaceBounties demo_env (demo_world, new_store ''w3'')))) = False"
proof -
  have h1: "currentWorkspaceId (new_store ''w3'') \<noteq> []"
    by (simp add: new_store_def)
  have h2: "jwt_of demo_world = Some ''j''"
    by (simp add: jwt_of_def demo_world_def)
  have h3: "''j'' \<noteq> []"
    by simp
  have h4: "cards_reply demo_env (length (requests demo_world))
              (bounty_cards_url demo_env (currentWorkspaceId (new_store ''w3''))) ''j'' =
            Returns (Response True ''OK'' (Returns None))"
    by (simp add: demo_env_def bounty_cards_url_def new_store_def)
  from C10_null_list [OF h1 h2 h3 h4]
  obtain w' s' where
    "loadWorkspaceBounties demo_env (demo_world, new_store ''w3'') = Returns (w', s')"
    "bountyCards s' = []"
    "requests w' = requests demo_world
       @ [(bounty_cards_url demo_env (currentWorkspaceId (new_store ''w3'')), ''j'')]"
    "error s' = None" "loading s' = False"
    by blast
  then show ?thesis
    by (simp add: bounty_cards_url_def demo_env_def demo_world_def new_store_def)
qed

subsection \<open>Claims about the feature filter\<close>

lemma as_strings_map_JStr: "as_strings (map JStr sel) = Some sel"
  by (induction sel) simp_all

text \<open>
  The cards that \<open>hasCardsWithoutFeatures\<close> looks for are the cards without a feature
  identifier.
\<close>

lemma hasCardsWithoutFeatures_iff:
  "hasCardsWithoutFeatures s \<longleftrightarrow> (\<exists>c \<in> set (bountyCards s). feature_identifier c = None)"
  by (auto simp: hasCardsWithoutFeatures_def list_ex_iff truthy_def features_uuid_def
      feature_identifier_def split: option.splits)

text \<open>
  Claim C2. With an empty selection \<open>filteredBountyCards\<close> is \<open>bountyCards\<close>.
  Otherwise it keeps, in order, exactly the cards that have no feature identifier while
  \<^verbatim>\<open>no-feature\<close> is selected, and the cards whose feature identifier is selected.
\<close>

theorem C2_filteredBountyCards:
  "filteredBountyCards s =
     (if selectedFeatures s = [] then bountyCards s
      else filter (\<lambda>c. (feature_identifier c = None \<and> ''no-feature'' \<in> set (selectedFeatures s))
                       \<or> (\<exists>u. feature_identifier c = Some u \<and> u \<in> set (selectedFeatures s)))
             (bountyCards s))"
proof -
  have "(if \<not> truthy (features_uuid c) \<and> ''no-feature'' \<in> set sel then True
         else if truthy (features_uuid c) \<and> the (features_uuid c) \<in> set sel then True
         else False) =
        ((feature_identifier c = None \<and> ''no-feature'' \<in> set sel)
         \<or> (\<exists>u. feature_identifier c = Some u \<and> u \<in> set sel))" for c sel
    by (auto simp: truthy_def features_uuid_def feature_identifier_def split: option.splits)
  then show ?thesis
    by (simp add: filteredBountyCards_def Let_def)
qed

theorem C2_witness:
  "filteredBountyCards
     ((new_store ''w'')\<lparr>bountyCards := [card_a, card_b, card_c],
                        selectedFeatures := [''no-feature'']\<rparr>) = [card_b, card_c]
   \<and> filteredBountyCards ((new_store ''w'')\<lparr>bountyCards := [card_a, card_b, card_c]\<rparr>) =
       [card_a, card_b, card_c]"
  using C2_filteredBountyCards
    [of "(new_store ''w'')\<lparr>bountyCards := [card_a, card_b, card_c],
                            selectedFeatures := [''no-feature'']\<rparr>"]
    C2_filteredBountyCards [of "(new_store ''w'')\<lparr>bountyCards := [card_a, card_b, card_c]\<rparr>"]
  by (simp add: new_store_def feature_identifier_def card_a_def card_b_def card_c_def)

text \<open>
  Claim C7. \<open>toggleFeature f\<close> makes \<open>f\<close> a member of \<open>selectedFeatures\<close> exactly when
  it was not one and keeps the membership of every other identifier. It then stores,
  under the fixed key, the record whose \<^verbatim>\<open>selectedFeatures\<close> is the new selection and
  whose \<^verbatim>\<open>timestamp\<close> is the time of the call, so that \<open>restoreFilterState\<close> on any store
  of that session gives the new selection. A second \<open>toggleFeature f\<close> gives back the
  members the selection had at the start.
\<close>

theorem C7_toggleFeature:
  "(f \<in> set (selectedFeatures (snd (toggleFeature f (w, s)))) \<longleftrightarrow> f \<notin> set (selectedFeatures s))
   \<and> (\<forall>g. g \<noteq> f \<longrightarrow>
         (g \<in> set (selectedFeatures (snd (toggleFeature f (w, s))))
          \<longleftrightarrow> g \<in> set (selectedFeatures s)))
   \<and> sessionStorage (fst (toggleFeature f (w, s))) ''bountyFilterState'' =
       Some (JsonText
               (JObj [(''selectedFeatures'',
                       JArr (map JStr (selectedFeatures (snd (toggleFeature f (w, s)))))),
                      (''timestamp'', JNum (now w))]))
   \<and> restoreFilterState (fst (toggleFeature f (w, s)), s2) =
       Completes (fst (toggleFeature f (w, s)),
                  s2\<lparr>selectedFeatures := selectedFeatures (snd (toggleFeature f (w, s)))\<rparr>)
   \<and> set (selectedFeatures (snd (toggleFeature f (toggleFeature f (w, s))))) =
       set (selectedFeatures s)"
proof -
  let ?sel = "\<lambda>s'. if f \<in> set (selectedFeatures s')
                   then filter (\<lambda>i. i \<noteq> f) (selectedFeatures s')
                   else selectedFeatures s' @ [f]"
  have t: "toggleFeature f (w', s') =
      (w'\<lparr>sessionStorage := (sessionStorage w')
             (''bountyFilterState'' \<mapsto>
                JsonText (JObj [(''selectedFeatures'', JArr (map JStr (?sel s'))),
                                (''timestamp'', JNum (now w'))]))\<rparr>,
       s'\<lparr>selectedFeatures := ?sel s'\<rparr>)" for w' s'
    by (simp add: toggleFeature_def saveFilterState_def JSON_stringify_def filter_state_json_def)
  have m: "(f \<in> set (?sel s) \<longleftrightarrow> f \<notin> set (selectedFeatures s))
      \<and> (\<forall>g. g \<noteq> f \<longrightarrow> (g \<in> set (?sel s) \<longleftrightarrow> g \<in> set (selectedFeatures s)))"
    by auto
  have r: "restoreFilterState (fst (toggleFeature f (w, s)), s2) =
      Completes (fst (toggleFeature f (w, s)), s2\<lparr>selectedFeatures := ?sel s\<rparr>)"
    unfolding t
    by (simp add: restoreFilterState_def JSON_parse_def get_selectedFeatures_def
        as_strings_map_JStr)
  have d: "set (selectedFeatures (snd (toggleFeature f (toggleFeature f (w, s))))) =
      set (selectedFeatures s)"
    unfolding t by auto
  show ?thesis
    using m r d by (simp add: t)
qed

theorem C7_witness:
  "selectedFeatures (snd (toggleFeature ''f1'' (demo_world, new_store ''w1''))) = [''f1'']
   \<and> sessionStorage (fst (toggleFeature ''f1'' (demo_world, new_store ''w1''))) ''bountyFilterState'' =
       Some (JsonText (JObj [(''selectedFeatures'', JArr [JStr ''f1'']), (''timestamp'', JNum 1000)]))
   \<and> restoreFilterState
        (fst (toggleFeature ''f1'' (demo_world, new_store ''w1'')), new_store ''w2'') =
       Completes (fst (toggleFeature ''f1'' (demo_world, new_store ''w1'')),
                  (new_store ''w2'')\<lparr>selectedFeatures := [''f1'']\<rparr>)
   \<and> set (selectedFeatures
             (snd (toggleFeature ''f1'' (toggleFeature ''f1'' (demo_world, new_store ''w1''))))) = {}"
proof -
  have "selectedFeatures (snd (toggleFeature ''f1'' (demo_world, new_store ''w1''))) = [''f1'']"
    by (simp add: toggleFeature_def saveFilterState_def new_store_def)
  with C7_toggleFeature [of "''f1''" demo_world "new_store ''w1''" "new_store ''w2''"]
  show ?thesis
    by (simp add: demo_world_def new_store_def)
qed

text \<open>
  Claim C8. After \<open>clearAllFilters\<close> the selection is empty, the slot under the fixed
  key holds the record of an empty selection with the time of the call (the slot is not
  absent), and \<open>filteredBountyCards\<close> is all of \<open>bountyCards\<close>, which the call has not
  changed.
\<close>

theorem C8_clearAllFilters:
  "selectedFeatures (snd (clearAllFilters (w, s))) = []
   \<and> sessionStorage (fst (clearAllFilters (w, s))) ''bountyFilterState'' =
       Some (JsonText (JObj [(''selectedFeatures'', JArr []), (''timestamp'', JNum (now w))]))
   \<and> filteredBountyCards (snd (clearAllFilters (w, s))) = bountyCards (snd (clearAllFilters (w, s)))
   \<and> bountyCards (snd (clearAllFilters (w, s))) = bountyCards s"
  by (simp add: clearAllFilters_def saveFilterState_def removeItem_def JSON_stringify_def
      filter_state_json_def filteredBountyCards_def)

theorem C8_witness:
  "filteredBountyCards
     (snd (clearAllFilters
        (demo_world, (new_store ''w'')\<lparr>bountyCards := [card_a, card_b],
                                        selectedFeatures := [''f9'']\<rparr>))) = [card_a, card_b]
   \<and> sessionStorage
       (fst (clearAllFilters
          (demo_world, (new_store ''w'')\<lparr>bountyCards := [card_a, card_b],
                                          selectedFeatures := [''f9'']\<rparr>))) ''bountyFilterState'' =
       Some (JsonText (JObj [(''selectedFeatures'', JArr []), (''timestamp'', JNum 1000)]))"
  using C8_clearAllFilters
    [of demo_world "(new_store ''w'')\<lparr>bountyCards := [card_a, card_b], selectedFeatures := [''f9'']\<rparr>"]
  by (simp add: demo_world_def new_store_def)

subsection \<open>Claims about exceptions and about switching the workspace\<close>











text \<open>
  Claim C9, as the code has it. For a new id that differs from the current one,
  \<open>switchWorkspace\<close> first sets \<open>currentWorkspaceId\<close> and empties \<open>bountyCards\<close>, without
  issuing a request, and then starts the reload from that state. When the synchronous
  part of the call is over, \<open>bountyCards\<close> is empty under the new id, and the only request
  issued is the list request for the new id, if the precondition check let it through.
  The call itself never shows the cards it found against the new id: when the reload
  completes with nothing else in between, \<open>bountyCards\<close> is still empty or is the
  enriched list of the answer to that request.
\<close>

theorem C9_switch_clears_before_reload:
  assumes "currentWorkspaceId s \<noteq> newId"
    and "switch_begin e newId (w, s) = ((w1, s1), p)"
  shows "switch_action newId (w, s) = (w, s\<lparr>currentWorkspaceId := newId, bountyCards := []\<rparr>)
     \<and> load_begin e (switch_action newId (w, s)) = ((w1, s1), p)
     \<and> currentWorkspaceId s1 = newId \<and> bountyCards s1 = []
     \<and> (p = None \<longrightarrow>
           requests w1 = requests w \<and> switchWorkspace e newId (w, s) = Returns (w1, s1))
     \<and> (\<forall>pd. p = Some pd \<longrightarrow>
           requests w1 = requests w @ [(bounty_cards_url e newId, p_jwt pd)]
           \<and> p_url pd = bounty_cards_url e newId \<and> p_seq pd = length (requests w)
           \<and> switchWorkspace e newId (w, s) = Returns (load_complete e pd (w1, s1))
           \<and> currentWorkspaceId (snd (load_complete e pd (w1, s1))) = newId
           \<and> (bountyCards (snd (load_complete e pd (w1, s1))) = []
               \<or> (\<exists>st data.
                     cards_reply e (p_seq pd) (p_url pd) (p_jwt pd) =
                       Returns (Response True st (Returns data))
                     \<and> bountyCards (snd (load_complete e pd (w1, s1))) =
                         snd (bountyCardsWithProofs e (p_jwt pd)
                                (case data of None \<Rightarrow> [] | Some cards \<Rightarrow> cards) w1))))"
proof -
  let ?mid = "switch_action newId (w, s)"
  have a: "?mid = (w, s\<lparr>currentWorkspaceId := newId, bountyCards := []\<rparr>)"
    by (simp add: switch_action_def)
  have b: "load_begin e ?mid = ((w1, s1), p)"
    using assms by (simp add: switch_begin_def)
  have s1: "currentWorkspaceId s1 = newId \<and> bountyCards s1 = []"
    using b unfolding a by (auto simp: load_begin_def Let_def split: if_splits)
  have sw: "switchWorkspace e newId (w, s) =
      (case p of None \<Rightarrow> Returns (w1, s1) | Some pd \<Rightarrow> Returns (load_complete e pd (w1, s1)))"
    using assms(1) b by (simp add: switchWorkspace_def loadWorkspaceBounties_def)
  have none: "requests w1 = requests w" if "p = None"
    using b that unfolding a by (auto simp: load_begin_def Let_def split: if_splits)
  have some: "requests w1 = requests w @ [(bounty_cards_url e newId, p_jwt pd)]
      \<and> p_url pd = bounty_cards_url e newId \<and> p_seq pd = length (requests w)"
    if "p = Some pd" for pd
    using b that unfolding a by (auto simp: load_begin_def Let_def fetch_def split: if_splits)
  have fin: "bountyCards (snd (load_complete e pd (w1, s1))) = []
      \<or> (\<exists>st data.
            cards_reply e (p_seq pd) (p_url pd) (p_jwt pd) = Returns (Response True st (Returns data))
            \<and> bountyCards (snd (load_complete e pd (w1, s1))) =
                snd (bountyCardsWithProofs e (p_jwt pd)
                       (case data of None \<Rightarrow> [] | Some cards \<Rightarrow> cards) w1))" for pd
  proof (cases "cards_reply e (p_seq pd) (p_url pd) (p_jwt pd)")
    case (Throws x)
    then show ?thesis
      using s1 by (simp add: load_complete_def load_try_def)
  next
    case (Returns response)
    obtain k st body where r: "response = Response k st body"
      by (cases response)
    show ?thesis
    proof (cases "k \<and> (\<exists>data. body = Returns data)")
      case True
      then obtain data where "cards_reply e (p_seq pd) (p_url pd) (p_jwt pd) =
          Returns (Response True st (Returns data))"
        using Returns r by auto
      from load_try_listed [OF this, of w1] this show ?thesis
        by (simp add: load_complete_def)
    next
      case False
      then show ?thesis
        using Returns r s1 by (cases body) (auto simp: load_complete_def load_try_def)
    qed
  qed
  have ws: "currentWorkspaceId (snd (load_complete e pd (w1, s1))) = newId" for pd
    using s1 by (simp add: load_complete_workspace)
  have n: "p = None \<longrightarrow>
      requests w1 = requests w \<and> switchWorkspace e newId (w, s) = Returns (w1, s1)"
    using none sw by simp
  have c: "requests w1 = requests w @ [(bounty_cards_url e newId, p_jwt pd)]
      \<and> p_url pd = bounty_cards_url e newId \<and> p_seq pd = length (requests w)
      \<and> switchWorkspace e newId (w, s) = Returns (load_complete e pd (w1, s1))
      \<and> currentWorkspaceId (snd (load_complete e pd (w1, s1))) = newId" if "p = Some pd" for pd
    using some [OF that] sw that ws [of pd] by simp
  show ?thesis
    using a b s1 n c fin by blast
qed

theorem C9_witness:
  "currentWorkspaceId (new_store ''w1'') \<noteq> ''w2''
   \<and> switch_begin demo_env ''w2'' (demo_world, (new_store ''w1'')\<lparr>bountyCards := [card_a]\<rparr>) =
       ((demo_world\<lparr>requests := [(''t/gobounties/bounty-cards?workspace_uuid=w2'', ''j'')]\<rparr>,
         (new_store ''w2'')\<lparr>loading := True\<rparr>),
        Some (Pending ''j'' 0 ''t/gobounties/bounty-cards?workspace_uuid=w2''))
   \<and> bountyCards ((new_store ''w2'')\<lparr>loading := True\<rparr>) = []
   \<and> switchWorkspace demo_env ''w2'' (demo_world, (new_store ''w1'')\<lparr>bountyCards := [card_a]\<rparr>) =
       Returns (load_complete demo_env
                  (Pending ''j'' 0 ''t/gobounties/bounty-cards?workspace_uuid=w2'')
                  (demo_world\<lparr>requests := [(''t/gobounties/bounty-cards?workspace_uuid=w2'', ''j'')]\<rparr>,
                   (new_store ''w2'')\<lparr>loading := True\<rparr>))"
proof -
  have h1: "currentWorkspaceId ((new_store ''w1'')\<lparr>bountyCards := [card_a]\<rparr>) \<noteq> ''w2''"
    by (simp add: new_store_def)
  have h2: "switch_begin demo_env ''w2'' (demo_world, (new_store ''w1'')\<lparr>bountyCards := [card_a]\<rparr>) =
       ((demo_world\<lparr>requests := [(''t/gobounties/bounty-cards?workspace_uuid=w2'', ''j'')]\<rparr>,
         (new_store ''w2'')\<lparr>loading := True\<rparr>),
        Some (Pending ''j'' 0 ''t/gobounties/bounty-cards?workspace_uuid=w2''))"
    by (simp add: switch_begin_def switch_action_def load_begin_def Let_def fetch_def
        jwt_of_def truthy_def new_store_def demo_world_def demo_env_def bounty_cards_url_def)
  from C9_switch_clears_before_reload [OF h1 h2] h1 h2 show ?thesis
    by (simp add: new_store_def)
qed

text \<open>
  Claim C9 as it is written fails when an earlier load is still pending at the switch:
  nothing ties a completing load to the workspace id it was started for. Here the load
  started for \<open>w1\<close> completes after the switch to \<open>w2\<close> and after the load of \<open>w2\<close>,
  and leaves the cards of \<open>w1\<close> under the id \<open>w2\<close>.
\<close>

theorem C9_counterexample:
  "snd race_started = Some (Pending ''j'' 0 ''t/gobounties/bounty-cards?workspace_uuid=w1'')
   \<and> currentWorkspaceId (snd (fst race_switched)) = ''w2''
   \<and> bountyCards (snd (fst race_switched)) = []
   \<and> snd race_switched = Some (Pending ''j'' 1 ''t/gobounties/bounty-cards?workspace_uuid=w2'')
   \<and> bountyCards (snd race_new_landed) = [card_c\<lparr>pow := 1\<rparr>]
   \<and> currentWorkspaceId (snd race_old_landed) = ''w2''
   \<and> loading (snd race_old_landed) = False
   \<and> bountyCards (snd race_old_landed) = [card_a\<lparr>pow := 2\<rparr>, card_b\<lparr>pow := 0\<rparr>]"
proof -
  have s: "race_started =
      ((demo_world\<lparr>requests := [(''t/gobounties/bounty-cards?workspace_uuid=w1'', ''j'')]\<rparr>,
        (new_store ''w1'')\<lparr>loading := True\<rparr>),
       Some (Pending ''j'' 0 ''t/gobounties/bounty-cards?workspace_uuid=w1''))"
    by (simp add: race_started_def load_begin_def Let_def fetch_def jwt_of_def truthy_def
        new_store_def demo_world_def demo_env_def bounty_cards_url_def)
  have t: "race_switched =
      ((demo_world\<lparr>requests := [(''t/gobounties/bounty-cards?workspace_uuid=w1'', ''j''),
                                 (''t/gobounties/bounty-cards?workspace_uuid=w2'', ''j'')]\<rparr>,
        (new_store ''w2'')\<lparr>loading := True\<rparr>),
       Some (Pending ''j'' 1 ''t/gobounties/bounty-cards?workspace_uuid=w2''))"
    by (simp add: race_switched_def s switch_begin_def switch_action_def load_begin_def Let_def
        fetch_def jwt_of_def truthy_def new_store_def demo_world_def demo_env_def
        bounty_cards_url_def)
  have n: "snd race_new_landed = (new_store ''w2'')\<lparr>bountyCards := [card_c\<lparr>pow := 1\<rparr>]\<rparr>"
    by (simp add: race_new_landed_def t load_complete_def load_try_def with_proofs_def
        pow_of_reply_def proofs_length_def proofsUrl_def fetch_def Let_def new_store_def
        demo_env_def card_c_def)
  have o: "snd race_old_landed =
      (new_store ''w2'')\<lparr>bountyCards := [card_a\<lparr>pow := 2\<rparr>, card_b\<lparr>pow := 0\<rparr>]\<rparr>"
    by (simp add: race_old_landed_def s load_complete_def load_try_def with_proofs_def
        pow_of_reply_def proofs_length_def proofsUrl_def fetch_def Let_def
        demo_env_def card_a_def card_b_def case_prod_unfold n new_store_def)
  show ?thesis
    by (simp add: s t n o new_store_def)
qed

end
